theory Spec2Isabelle
  imports Complex_Main "HOL-Library.AList" "HOL-Library.Sublist"
begin

section \<open>Python values and exceptions\<close>

text \<open>
  The exceptions that the modelled functions raise or let through. \<open>ValueError\<close> carries
  the text that \<open>str(err)\<close> returns; \<open>OtherException\<close> stands for any exception class
  that is neither one of the named ones nor derived from \<open>ValueError\<close>.
\<close>

datatype error =
    KeyError
  | ValueError string
  | TypeError
  | AssertionError
  | ZeroDivisionError
  | OtherException string

text \<open>
  The values that a grade function hands back as its score and that the score fields of
  the data dictionary hold. Python keeps \<open>bool\<close>, \<open>int\<close> and \<open>float\<close> apart as
  classes, so the model does too. A float is represented by the rational number it
  denotes, which is what the comparisons on it need; no arithmetic on floats is modelled
  and the non-finite floats are not represented. \<open>VStr\<close> stands for a value of any
  non-numeric class.
\<close>

datatype pyval = VNone | VBool bool | VInt int | VFloat rat | VStr string

text \<open>\<open>isinstance(v, (int, float))\<close>: \<open>bool\<close> is a subclass of \<open>int\<close>.\<close>

fun isinstance_int_float :: "pyval \<Rightarrow> bool" where
  "isinstance_int_float (VBool b) = True"
| "isinstance_int_float (VInt i) = True"
| "isinstance_int_float (VFloat r) = True"
| "isinstance_int_float v = False"

text \<open>\<open>isinstance(v, bool)\<close>.\<close>

fun isinstance_bool :: "pyval \<Rightarrow> bool" where
  "isinstance_bool (VBool b) = True"
| "isinstance_bool v = False"

text \<open>
  The number a numeric value denotes in comparisons (\<open>True\<close> is 1 and
  \<open>False\<close> is 0); \<open>None\<close> for a value that is not a number.
\<close>

fun py_num :: "pyval \<Rightarrow> rat option" where
  "py_num (VBool b) = Some (if b then 1 else 0)"
| "py_num (VInt i) = Some (of_int i)"
| "py_num (VFloat r) = Some r"
| "py_num v = None"

text \<open>The chained comparison \<open>0.0 <= v <= 1.0\<close> on a numeric value.\<close>

definition in_unit_interval :: "pyval \<Rightarrow> bool" where
  "in_unit_interval v = (case py_num v of None \<Rightarrow> False | Some r \<Rightarrow> 0 \<le> r \<and> r \<le> 1)"

text \<open>How a function that mutates its argument in place ends: it returns, or it raises.\<close>

datatype outcome = Returned | Raised error

section \<open>shared\_utils.py: binary\_search\<close>

text \<open>
  The \<open>while lo < hi\<close> loop of \<open>binary_search\<close>. Python's integers are unbounded, so the
  bounds are \<open>int\<close>; \<open>//\<close> rounds towards minus infinity, as \<open>div\<close> on \<open>int\<close> does.
  The function returns the value of \<open>lo\<close> when the loop exits.
\<close>

function binary_search_loop :: "int \<Rightarrow> int \<Rightarrow> (int \<Rightarrow> bool) \<Rightarrow> int" where
  "binary_search_loop lo hi condition_fn =
     (if lo < hi then
        (let mid = lo + (hi - lo) div 2 in
         if condition_fn mid then binary_search_loop lo mid condition_fn
         else binary_search_loop (mid + 1) hi condition_fn)
      else lo)"
  by pat_completeness auto
termination
  by (relation "measure (\<lambda>(lo, hi, condition_fn). nat (hi - lo))") auto

declare binary_search_loop.simps [simp del]

text \<open>
  \<open>binary_search\<close>: the assertion \<open>lo <= hi\<close>, the loop, and the final test of
  \<open>condition_fn(lo)\<close>. \<open>Inr None\<close> is the return value \<open>None\<close>.
\<close>

definition binary_search :: "int \<Rightarrow> int \<Rightarrow> (int \<Rightarrow> bool) \<Rightarrow> error + int option" where
  "binary_search lo hi condition_fn =
     (if \<not> lo \<le> hi then Inl AssertionError
      else (let lo' = binary_search_loop lo hi condition_fn in
            if \<not> condition_fn lo' then Inr None else Inr (Some lo')))"

text \<open>
  A predicate that is false on a prefix of the integers and true from then on.
\<close>

definition monotone_condition :: "(int \<Rightarrow> bool) \<Rightarrow> bool" where
  "monotone_condition condition_fn = (\<forall>x y. x \<le> y \<longrightarrow> condition_fn x \<longrightarrow> condition_fn y)"

section \<open>shared\_utils.py: the data dictionary\<close>

text \<open>
  One entry of \<open>data['partial_scores']\<close>: a dictionary with the keys \<open>'score'\<close>,
  \<open>'weight'\<close> and \<open>'feedback'\<close>. The entries that the module creates always have the
  key \<open>'score'\<close> (with \<open>None\<close> as a possible value, see
  \<open>remove_partial_credit_display\<close>); the other two keys may be absent, which is
  \<open>None\<close> here.
\<close>

record part =
  part_score :: pyval
  part_weight :: "int option"
  part_feedback :: "string option"

text \<open>
  A submitted answer: a string, or the token list of a scaffolded-writing question.
\<close>

datatype answer = AStr string | ATokens "string list"

text \<open>
  The dictionary \<open>data\<close> that the grading host passes to every call, with the
  sub-dictionaries the module reads and writes. \<open>partial_scores\<close> is iterated over, so
  it is an association list in insertion order, as a Python \<open>dict\<close> is (its keys
  are distinct in every dictionary the host passes):
  \<open>AList.update\<close> overwrites the value of a key that is present and appends a new key
  at the end. The key \<open>'score'\<close> is absent (\<open>None\<close>) until a score is set. The host
  creates the sub-dictionaries before it calls the module, so all of them are present.
\<close>

record data =
  partial_scores :: "(string \<times> part) list"
  submitted_answers :: "string \<rightharpoonup> answer"
  format_errors :: "string \<rightharpoonup> string"
  feedback :: "string \<rightharpoonup> string"
  score :: "pyval option"

section \<open>shared\_utils.py: grade\_question\_parameterized\<close>

definition get_submitted_answer :: "data \<Rightarrow> string \<Rightarrow> error + answer" where
  "get_submitted_answer d question_name =
     (case submitted_answers d question_name of
        None \<Rightarrow> Inl KeyError
      | Some a \<Rightarrow> Inr a)"

definition set_feedback :: "data \<Rightarrow> string \<Rightarrow> string \<Rightarrow> data" where
  "set_feedback d feedback_field_name feedback_content =
     d\<lparr>feedback := (feedback d)(feedback_field_name \<mapsto> feedback_content)\<rparr>"

text \<open>
  The body of the second \<open>try\<close> block: the call of the grade function and the
  conversion of its result into the partial score, with the \<open>isinstance\<close> tests in the
  order of the source.
\<close>

definition try_grade ::
  "(answer \<Rightarrow> error + pyval \<times> string option) \<Rightarrow> answer \<Rightarrow> error + pyval \<times> string option" where
  "try_grade grade_function submitted_answer =
     (case grade_function submitted_answer of
        Inl e \<Rightarrow> Inl e
      | Inr (result, feedback_content) \<Rightarrow>
          if isinstance_int_float result then
            (if in_unit_interval result then Inr (result, feedback_content)
             else Inl AssertionError)
          else if isinstance_bool result then
            Inr (VFloat (if result = VBool True then 1 else 0), feedback_content)
          else Inl TypeError)"

text \<open>
  The truth value of an optional string: \<open>None\<close> and the empty string count as false.
\<close>

fun truthy :: "string option \<Rightarrow> bool" where
  "truthy None = False"
| "truthy (Some s) = (s \<noteq> [])"

text \<open>
  The check for unescaped student input: it applies to a string answer that contains both
  \<open><\<close> and \<open>>\<close> and occurs in the feedback as a substring.
\<close>

fun unescaped_input_in_feedback :: "answer \<Rightarrow> string \<Rightarrow> bool" where
  "unescaped_input_in_feedback (AStr submitted_answer) feedback_content =
     ((CHR ''<'' \<in> set submitted_answer \<and> CHR ''>'' \<in> set submitted_answer)
      \<and> sublist submitted_answer feedback_content)"
| "unescaped_input_in_feedback (ATokens ts) feedback_content = False"

text \<open>
  \<open>grade_question_parameterized\<close>. The function mutates \<open>data\<close> in place, so the model
  returns the dictionary as it stands when the function returns or raises. The library
  function \<open>html.escape\<close> is the parameter \<open>html_escape\<close>.
\<close>

definition grade_question_parameterized ::
  "(string \<Rightarrow> string) \<Rightarrow> data \<Rightarrow> string \<Rightarrow> (answer \<Rightarrow> error + pyval \<times> string option)
   \<Rightarrow> int \<Rightarrow> string option \<Rightarrow> data \<times> outcome" where
  "grade_question_parameterized html_escape d question_name grade_function weight
       feedback_field_name =
     (let d1 = d\<lparr>partial_scores :=
                  AList.update question_name
                    \<lparr>part_score = VInt 0, part_weight = Some weight, part_feedback = None\<rparr>
                    (partial_scores d)\<rparr>
      in
      case get_submitted_answer d1 question_name of
        Inl KeyError \<Rightarrow>
          (d1\<lparr>format_errors := (format_errors d1)(question_name \<mapsto> ''No answer was submitted'')\<rparr>,
           Returned)
      | Inl e \<Rightarrow> (d1, Raised e)
      | Inr submitted_answer \<Rightarrow>
          (case try_grade grade_function submitted_answer of
             Inl (ValueError msg) \<Rightarrow>
               (d1\<lparr>format_errors := (format_errors d1)(question_name \<mapsto> html_escape msg)\<rparr>,
                Returned)
           | Inl e \<Rightarrow> (d1, Raised e)
           | Inr (partial_score, feedback_content) \<Rightarrow>
               (let d2 = d1\<lparr>partial_scores :=
                             AList.map_entry question_name
                               (\<lambda>p. p\<lparr>part_score := partial_score\<rparr>) (partial_scores d1)\<rparr>
                in
                if truthy feedback_content then
                  (if unescaped_input_in_feedback submitted_answer (the feedback_content) then
                     (d2, Raised (ValueError
                        (''Unescaped student input should not be present in the feedback for ''
                         @ question_name @ ''.'')))
                   else
                     (let d3 = d2\<lparr>partial_scores :=
                                   AList.map_entry question_name
                                     (\<lambda>p. p\<lparr>part_feedback := feedback_content\<rparr>)
                                     (partial_scores d2)\<rparr>;
                          field_name = (if \<not> truthy feedback_field_name then question_name
                                        else the feedback_field_name)
                      in (set_feedback d3 field_name (the feedback_content), Returned)))
                else (d2, Returned))))"

section \<open>problems/play\_music.py: grade\_statement\<close>

text \<open>
  The class \<open>StudentSubmission\<close> belongs to the package \<open>scaffolded_writing\<close>, which
  is not part of the sources. \<open>grade_statement\<close> uses two things of it: the constructor,
  applied to the tokens and to the grammar \<open>PROBLEM_CONFIG\<close>, and the method
  \<open>does_path_exist\<close> of the object it returns. The object is a record with that method,
  which answers a query or raises; the constructor is a parameter of \<open>grade_statement\<close>.
\<close>

record submission =
  does_path_exist :: "string \<Rightarrow> string \<Rightarrow> error + bool"

text \<open>
  \<open>a and b\<close> on calls that may raise: \<open>b\<close> is evaluated only when \<open>a\<close> is true.
\<close>

definition py_and :: "error + bool \<Rightarrow> error + bool \<Rightarrow> error + bool" where
  "py_and a b = (case a of Inl e \<Rightarrow> Inl e | Inr False \<Rightarrow> Inr False | Inr True \<Rightarrow> b)"

text \<open>
  \<open>if c: return r\<close>, followed by the rest of the function body.
\<close>

definition if_return :: "error + bool \<Rightarrow> 'a \<Rightarrow> error + 'a \<Rightarrow> error + 'a" where
  "if_return c r rest = (case c of Inl e \<Rightarrow> Inl e | Inr True \<Rightarrow> Inr r | Inr False \<Rightarrow> rest)"

definition grade_statement ::
  "(string list \<Rightarrow> error + submission) \<Rightarrow> string list \<Rightarrow> error + bool \<times> string option" where
  "grade_statement StudentSubmission tokens =
     (case StudentSubmission tokens of
        Inl e \<Rightarrow> Inl e
      | Inr submission \<Rightarrow>
          if_return
            (py_and (does_path_exist submission ''ARTIST'' ''Vulfpeck'')
                    (does_path_exist submission ''PLAY_LOCATION'' ''in church''))
            (False, Some ''Vulfpeck is great, but not in the context of church. consider playing somewhere else.'')
         (if_return
            (does_path_exist submission ''ARTIST'' ''Taylor Swift'')
            (False, Some ''It's best to sing Taylor Swift songs rather than play them. Try again.'')
         (if_return
            (py_and (does_path_exist submission ''ARTIST'' ''Vulfpeck'')
                    (does_path_exist submission ''INSTRUMENT'' ''with a violin''))
            (False, Some ''Yeah that doesn't really work. You'd better use a different instrument if you want to play Vulfpeck'')
         (if_return
            (does_path_exist submission ''PLAY_LOCATION'' ''at home'')
            (False, Some ''No need to play at home anymore. You've practiced. Go out and play!'')
         (if_return
            (py_and (does_path_exist submission ''ARTIST'' ''Janice Kapp Perry'')
                    (does_path_exist submission ''PLAY_LOCATION'' ''at the quad''))
            (False, Some ''Her music is a bit soft. Not many people will be able to hear it'')
         (if_return
            (py_and (does_path_exist submission ''ARTIST'' ''Vulfpeck'')
               (py_and (does_path_exist submission ''PLAY_LOCATION'' ''at the quad'')
                       (does_path_exist submission ''INSTRUMENT'' ''with a guitar'')))
            (True, Some ''Yep. That's the ultimate combo.'')
         (Inr (True, None))))))))"

subsection \<open>The rules of grade\_statement as a table\<close>

text \<open>
  A rule in the words of the specification: a condition, which is a conjunction of path
  queries, and the verdict and feedback returned when it holds. \<open>play_music_rules\<close>
  lists the six \<open>if\<close> statements of \<open>grade_statement\<close> in their written order.
\<close>

type_synonym rule = "(string \<times> string) list \<times> (bool \<times> string option)"

definition play_music_rules :: "rule list" where
  "play_music_rules =
     [([(''ARTIST'', ''Vulfpeck''), (''PLAY_LOCATION'', ''in church'')],
       (False, Some ''Vulfpeck is great, but not in the context of church. consider playing somewhere else.'')),
      ([(''ARTIST'', ''Taylor Swift'')],
       (False, Some ''It's best to sing Taylor Swift songs rather than play them. Try again.'')),
      ([(''ARTIST'', ''Vulfpeck''), (''INSTRUMENT'', ''with a violin'')],
       (False, Some ''Yeah that doesn't really work. You'd better use a different instrument if you want to play Vulfpeck'')),
      ([(''PLAY_LOCATION'', ''at home'')],
       (False, Some ''No need to play at home anymore. You've practiced. Go out and play!'')),
      ([(''ARTIST'', ''Janice Kapp Perry''), (''PLAY_LOCATION'', ''at the quad'')],
       (False, Some ''Her music is a bit soft. Not many people will be able to hear it'')),
      ([(''ARTIST'', ''Vulfpeck''), (''PLAY_LOCATION'', ''at the quad''),
        (''INSTRUMENT'', ''with a guitar'')],
       (True, Some ''Yep. That's the ultimate combo.''))]"

text \<open>
  The condition of a rule on a submission: its queries are put in their order and the
  first one that is false, or that raises, decides.
\<close>

fun condition_holds :: "submission \<Rightarrow> (string \<times> string) list \<Rightarrow> error + bool" where
  "condition_holds s [] = Inr True"
| "condition_holds s ((non_terminal, alternative) # qs) =
     (case does_path_exist s non_terminal alternative of
        Inl e \<Rightarrow> Inl e
      | Inr False \<Rightarrow> Inr False
      | Inr True \<Rightarrow> condition_holds s qs)"

text \<open>
  The rule evaluator of the specification: the rules are tried in the given order, the
  first rule whose condition holds gives the result, and a submission that no rule
  matches is accepted without feedback.
\<close>

fun evaluate :: "submission \<Rightarrow> rule list \<Rightarrow> error + bool \<times> string option" where
  "evaluate s [] = Inr (True, None)"
| "evaluate s ((condition, result) # rules) =
     (case condition_holds s condition of
        Inl e \<Rightarrow> Inl e
      | Inr True \<Rightarrow> Inr result
      | Inr False \<Rightarrow> evaluate s rules)"

subsection \<open>The derivation record of the specification\<close>

type_synonym derivation_record = "string \<rightharpoonup> string"

text \<open>
  Modelled from the spec: the class \<open>StudentSubmission\<close> with its method
  \<open>does_path_exist\<close> is missing from the sources. The specification (sections 3 and 4.1)
  describes the derivation record as a mapping from a non-terminal name to the
  terminal-literal alternative it matched, with no entry for a non-terminal whose branch
  was not taken, and the path query as true iff the matched alternative of the
  non-terminal equals the given literal.
\<close>

definition took_alternative :: "derivation_record \<Rightarrow> string \<Rightarrow> string \<Rightarrow> bool" where
  "took_alternative r non_terminal alternative = (r non_terminal = Some alternative)"

text \<open>
  Modelled from the spec: the submission object whose path queries are answered by a
  derivation record, and never raise.
\<close>

definition record_submission :: "derivation_record \<Rightarrow> submission" where
  "record_submission r =
     \<lparr>does_path_exist = (\<lambda>non_terminal alternative.
        Inr (took_alternative r non_terminal alternative))\<rparr>"

section \<open>Properties of binary\_search\<close>

lemma binary_search_loop_exit:
  "\<not> lo < hi \<Longrightarrow> binary_search_loop lo hi f = lo"
  by (subst binary_search_loop.simps) simp

lemma binary_search_loop_left:
  "lo < hi \<Longrightarrow> f (lo + (hi - lo) div 2) \<Longrightarrow>
   binary_search_loop lo hi f = binary_search_loop lo (lo + (hi - lo) div 2) f"
  by (subst binary_search_loop.simps) simp

lemma binary_search_loop_right:
  "lo < hi \<Longrightarrow> \<not> f (lo + (hi - lo) div 2) \<Longrightarrow>
   binary_search_loop lo hi f = binary_search_loop (lo + (hi - lo) div 2 + 1) hi f"
  by (subst binary_search_loop.simps) simp

text \<open>
  The loop invariant, read off at the exit: the result stays within the bounds, every
  value below it fails the condition, and a result below \<open>hi\<close> satisfies it.
\<close>

lemma binary_search_loop_correct:
  "lo \<le> hi \<Longrightarrow> monotone_condition f \<Longrightarrow>
   lo \<le> binary_search_loop lo hi f \<and> binary_search_loop lo hi f \<le> hi
     \<and> (\<forall>y. lo \<le> y \<and> y < binary_search_loop lo hi f \<longrightarrow> \<not> f y)
     \<and> (binary_search_loop lo hi f < hi \<longrightarrow> f (binary_search_loop lo hi f))"
proof (induction lo hi f rule: binary_search_loop.induct)
  case (1 lo hi f)
  have mono: "\<And>x y. x \<le> y \<Longrightarrow> f x \<Longrightarrow> f y"
    using "1.prems"(2) unfolding monotone_condition_def by blast
  show ?case
  proof (cases "lo < hi")
    case False
    then show ?thesis
      using "1.prems"(1) by (auto simp: binary_search_loop_exit)
  next
    case True
    define mid where "mid = lo + (hi - lo) div 2"
    have m: "lo \<le> mid" "mid < hi"
      using True by (simp_all add: mid_def)
    show ?thesis
    proof (cases "f mid")
      case fm: True
      have eq: "binary_search_loop lo hi f = binary_search_loop lo mid f"
        using True fm binary_search_loop_left [of lo hi f] by (simp add: mid_def)
      have ih: "lo \<le> binary_search_loop lo mid f \<and> binary_search_loop lo mid f \<le> mid
         \<and> (\<forall>y. lo \<le> y \<and> y < binary_search_loop lo mid f \<longrightarrow> \<not> f y)
         \<and> (binary_search_loop lo mid f < mid \<longrightarrow> f (binary_search_loop lo mid f))"
        using "1.IH"(1) [OF True mid_def fm m(1) "1.prems"(2)] .
      have "f (binary_search_loop lo mid f)"
        using ih fm by (cases "binary_search_loop lo mid f < mid") auto
      then show ?thesis
        using ih m by (simp add: eq)
    next
      case fm: False
      have eq: "binary_search_loop lo hi f = binary_search_loop (mid + 1) hi f"
        using True fm binary_search_loop_right [of lo hi f] by (simp add: mid_def)
      have le: "mid + 1 \<le> hi" using m by simp
      have ih: "mid + 1 \<le> binary_search_loop (mid + 1) hi f
         \<and> binary_search_loop (mid + 1) hi f \<le> hi
         \<and> (\<forall>y. mid + 1 \<le> y \<and> y < binary_search_loop (mid + 1) hi f \<longrightarrow> \<not> f y)
         \<and> (binary_search_loop (mid + 1) hi f < hi \<longrightarrow> f (binary_search_loop (mid + 1) hi f))"
        using "1.IH"(2) [OF True mid_def fm le "1.prems"(2)] .
      have low: "\<not> f y" if "y \<le> mid" for y
        using mono [OF that] fm by blast
      have "\<not> f y" if "lo \<le> y" "y < binary_search_loop (mid + 1) hi f" for y
      proof (cases "y \<le> mid")
        case True
        then show ?thesis by (rule low)
      next
        case False
        then have "mid + 1 \<le> y" by simp
        with ih that show ?thesis by blast
      qed
      then show ?thesis
        using ih m by (simp add: eq)
    qed
  qed
qed


text \<open>
  Claim C10. For \<open>lo \<le> hi\<close> and a monotone condition, \<open>binary_search\<close> does not
  raise; when it returns a number, that number is the smallest one in the closed interval
  from \<open>lo\<close> to \<open>hi\<close> that satisfies the condition; it returns \<open>None\<close> exactly when
  the condition is false at \<open>hi\<close>; and when \<open>hi\<close> is the only value of the interval
  that satisfies the condition, the result is \<open>hi\<close> itself, so the interval searched is
  closed at its upper end.
\<close>

theorem binary_search_smallest:
  assumes "lo \<le> hi" and "monotone_condition condition_fn"
  shows "(case binary_search lo hi condition_fn of
            Inl e \<Rightarrow> False
          | Inr None \<Rightarrow> \<not> condition_fn hi
          | Inr (Some x) \<Rightarrow>
              lo \<le> x \<and> x \<le> hi \<and> condition_fn x
              \<and> (\<forall>y. lo \<le> y \<and> y \<le> hi \<and> condition_fn y \<longrightarrow> x \<le> y))
         \<and> (binary_search lo hi condition_fn = Inr None \<longleftrightarrow> \<not> condition_fn hi)
         \<and> (condition_fn hi \<and> (\<forall>y. lo \<le> y \<and> y < hi \<longrightarrow> \<not> condition_fn y)
              \<longrightarrow> binary_search lo hi condition_fn = Inr (Some hi))"
proof -
  define r where "r = binary_search_loop lo hi condition_fn"
  have inv: "lo \<le> r" "r \<le> hi" "\<And>y. lo \<le> y \<Longrightarrow> y < r \<Longrightarrow> \<not> condition_fn y"
    "r < hi \<Longrightarrow> condition_fn r"
    using binary_search_loop_correct [OF assms] by (auto simp: r_def)
  have mono: "\<And>x y. x \<le> y \<Longrightarrow> condition_fn x \<Longrightarrow> condition_fn y"
    using assms(2) unfolding monotone_condition_def by blast
  have bs: "binary_search lo hi condition_fn = (if \<not> condition_fn r then Inr None else Inr (Some r))"
    using assms(1) by (simp add: binary_search_def r_def Let_def)
  have iff: "condition_fn r \<longleftrightarrow> condition_fn hi"
  proof
    assume "condition_fn r" then show "condition_fn hi" using mono inv(2) by blast
  next
    assume h: "condition_fn hi"
    show "condition_fn r"
    proof (cases "r < hi")
      case True then show ?thesis by (rule inv(4))
    next
      case False with inv(2) have "r = hi" by simp
      with h show ?thesis by simp
    qed
  qed
  have least: "r \<le> y" if "lo \<le> y" "condition_fn y" for y
    using inv(3) [of y] that by force
  have top: "r = hi" if "\<forall>y. lo \<le> y \<and> y < hi \<longrightarrow> \<not> condition_fn y" "condition_fn hi"
  proof (rule ccontr)
    assume "r \<noteq> hi"
    with inv(2) have "r < hi" by simp
    with inv(1,4) that(1) show False by blast
  qed
  show ?thesis
    using inv(1,2) iff least top by (auto simp: bs)
qed

theorem binary_search_smallest_witness:
  "(0::int) \<le> 3 \<and> monotone_condition (\<lambda>x. 3 \<le> x) \<and> binary_search 0 3 (\<lambda>x. 3 \<le> x) = Inr (Some 3)"
proof -
  have h: "(0::int) \<le> 3" by simp
  have m: "monotone_condition (\<lambda>x. 3 \<le> x)"
    by (simp add: monotone_condition_def)
  show ?thesis
    using h m binary_search_smallest [OF h m] by simp
qed

section \<open>Properties of grade\_question\_parameterized\<close>

lemma try_grade_Inl:
  "grade_function a = Inl e \<Longrightarrow> try_grade grade_function a = Inl e"
  by (simp add: try_grade_def)

lemma isinstance_bool_int_float:
  "isinstance_bool v \<Longrightarrow> isinstance_int_float v"
  by (cases v) simp_all

lemma try_grade_Inr:
  "grade_function a = Inr (v, fb) \<Longrightarrow>
   try_grade grade_function a =
     (if isinstance_int_float v then
        (if in_unit_interval v then Inr (v, fb) else Inl AssertionError)
      else Inl TypeError)"
  using isinstance_bool_int_float [of v] by (auto simp add: try_grade_def)

lemma try_grade_result:
  assumes "try_grade grade_function a = Inr (v, fb)"
  shows "grade_function a = Inr (v, fb) \<and> in_unit_interval v"
proof (cases "grade_function a")
  case (Inl e)
  with assms show ?thesis by (simp add: try_grade_Inl)
next
  case (Inr res)
  obtain v' fb' where res: "res = (v', fb')" by (cases res)
  show ?thesis
    using assms try_grade_Inr [of grade_function a v' fb'] Inr res
    by (auto split: if_splits)
qed

lemma gqp_no_answer:
  assumes "submitted_answers d q = None"
  shows "grade_question_parameterized esc d q gf w ffn =
    (d\<lparr>partial_scores := AList.update q
          \<lparr>part_score = VInt 0, part_weight = Some w, part_feedback = None\<rparr> (partial_scores d),
       format_errors := (format_errors d)(q \<mapsto> ''No answer was submitted'')\<rparr>, Returned)"
  using assms
  by (simp add: grade_question_parameterized_def get_submitted_answer_def Let_def)

lemma gqp_value_error:
  assumes "submitted_answers d q = Some a" and "try_grade gf a = Inl (ValueError msg)"
  shows "grade_question_parameterized esc d q gf w ffn =
    (d\<lparr>partial_scores := AList.update q
          \<lparr>part_score = VInt 0, part_weight = Some w, part_feedback = None\<rparr> (partial_scores d),
       format_errors := (format_errors d)(q \<mapsto> esc msg)\<rparr>, Returned)"
  using assms
  by (simp add: grade_question_parameterized_def get_submitted_answer_def Let_def)

lemma gqp_other_error:
  assumes "submitted_answers d q = Some a" and "try_grade gf a = Inl e"
    and "\<forall>msg. e \<noteq> ValueError msg"
  shows "grade_question_parameterized esc d q gf w ffn =
    (d\<lparr>partial_scores := AList.update q
          \<lparr>part_score = VInt 0, part_weight = Some w, part_feedback = None\<rparr> (partial_scores d)\<rparr>,
     Raised e)"
  using assms
  by (cases e) (simp_all add: grade_question_parameterized_def get_submitted_answer_def Let_def)

lemma gqp_graded:
  assumes "submitted_answers d q = Some a" and "try_grade gf a = Inr (v, fb)"
  shows "\<exists>fb'. map_of (partial_scores (fst (grade_question_parameterized esc d q gf w ffn))) q
           = Some \<lparr>part_score = v, part_weight = Some w, part_feedback = fb'\<rparr>"
  using assms
  by (simp add: grade_question_parameterized_def get_submitted_answer_def Let_def
      set_feedback_def map_of_map_entry update_conv')


text \<open>
  Claim C6. When an answer was submitted for the question and the grade function raises a
  \<open>ValueError\<close> on it, \<open>grade_question_parameterized\<close> returns normally. The
  dictionary it leaves differs from the one it received in two places only: the entry of
  the question in \<open>partial_scores\<close> is the fresh one with score 0, the given weight and
  no feedback, and \<open>format_errors\<close> holds the escaped message of the exception under
  the name of the question. The \<open>feedback\<close> dictionary is untouched.
\<close>

theorem grade_question_parameterized_format_error:
  assumes "submitted_answers d question_name = Some submitted_answer"
    and "grade_function submitted_answer = Inl (ValueError msg)"
  shows "grade_question_parameterized html_escape d question_name grade_function weight
           feedback_field_name =
         (d\<lparr>partial_scores :=
               AList.update question_name
                 \<lparr>part_score = VInt 0, part_weight = Some weight, part_feedback = None\<rparr>
                 (partial_scores d),
             format_errors := (format_errors d)(question_name \<mapsto> html_escape msg)\<rparr>,
          Returned)"
proof -
  have "try_grade grade_function submitted_answer = Inl (ValueError msg)"
    using assms(2) by (rule try_grade_Inl)
  with assms(1) show ?thesis by (rule gqp_value_error)
qed

theorem grade_question_parameterized_format_error_witness:
  "grade_question_parameterized (\<lambda>s. s)
     \<lparr>partial_scores = [], submitted_answers = [''q'' \<mapsto> AStr ''1, 2}''],
      format_errors = Map.empty, feedback = Map.empty, score = None\<rparr>
     ''q''
     (\<lambda>a. Inl (ValueError ''Make sure to format your answer with curly braces to denote a set''))
     1 None
   = (\<lparr>partial_scores =
         [(''q'', \<lparr>part_score = VInt 0, part_weight = Some 1, part_feedback = None\<rparr>)],
       submitted_answers = [''q'' \<mapsto> AStr ''1, 2}''],
       format_errors =
         [''q'' \<mapsto> ''Make sure to format your answer with curly braces to denote a set''],
       feedback = Map.empty, score = None\<rparr>,
      Returned)"
  using grade_question_parameterized_format_error
    [of "\<lparr>partial_scores = [], submitted_answers = [''q'' \<mapsto> AStr ''1, 2}''],
      format_errors = Map.empty, feedback = Map.empty, score = None\<rparr>"
      "''q''" "AStr ''1, 2}''"
      "\<lambda>a. Inl (ValueError ''Make sure to format your answer with curly braces to denote a set'')"
      "''Make sure to format your answer with curly braces to denote a set''"
      "\<lambda>s. s" 1 None]
  by simp

text \<open>
  The score that \<open>grade_question_parameterized\<close> leaves for the question, whether it
  returns or raises, satisfies \<open>0.0 <= score <= 1.0\<close>. It is either the initial 0 or
  the very value the grade function returned: no value is clamped or altered, a Boolean
  result included. A numeric result outside the unit interval makes the assertion fail:
  the function raises \<open>AssertionError\<close> and the score stays at the initial 0.
\<close>

lemma grade_question_parameterized_score_in_unit:
  "\<exists>p. map_of (partial_scores (fst (grade_question_parameterized html_escape d question_name
              grade_function weight feedback_field_name))) question_name = Some p
     \<and> in_unit_interval (part_score p)
     \<and> (part_score p = VInt 0
         \<or> (\<exists>a fb. submitted_answers d question_name = Some a
                \<and> grade_function a = Inr (part_score p, fb)))
     \<and> (\<forall>a b fb. submitted_answers d question_name = Some a
            \<and> grade_function a = Inr (VBool b, fb)
          \<longrightarrow> part_score p = VBool b \<and> py_num (part_score p) = Some (if b then 1 else 0))
     \<and> (\<forall>a v fb. submitted_answers d question_name = Some a
            \<and> grade_function a = Inr (v, fb)
            \<and> isinstance_int_float v \<and> \<not> in_unit_interval v
          \<longrightarrow> part_score p = VInt 0
              \<and> snd (grade_question_parameterized html_escape d question_name
                     grade_function weight feedback_field_name) = Raised AssertionError)"
proof -
  let ?res = "grade_question_parameterized html_escape d question_name
              grade_function weight feedback_field_name"
  let ?init = "\<lparr>part_score = VInt 0, part_weight = Some weight, part_feedback = None\<rparr>"
  have zero: "in_unit_interval (VInt 0)"
    by (simp add: in_unit_interval_def)
  show ?thesis
  proof (cases "submitted_answers d question_name")
    case None
    then have "map_of (partial_scores (fst ?res)) question_name = Some ?init"
      by (simp add: gqp_no_answer update_conv')
    with None zero show ?thesis by simp
  next
    case (Some a)
    show ?thesis
    proof (cases "try_grade grade_function a")
      case (Inr res)
      obtain v fb where res: "res = (v, fb)" by (cases res)
      from Inr res have tg: "try_grade grade_function a = Inr (v, fb)" by simp
      from try_grade_result [OF tg]
      have gf: "grade_function a = Inr (v, fb)" and unit: "in_unit_interval v" by simp_all
      from gqp_graded [OF Some tg] obtain fb' where
        "map_of (partial_scores (fst ?res)) question_name
           = Some \<lparr>part_score = v, part_weight = Some weight, part_feedback = fb'\<rparr>"
        by blast
      with Some gf unit show ?thesis by auto
    next
      case (Inl e)
      have state: "map_of (partial_scores (fst ?res)) question_name = Some ?init"
      proof (cases "\<exists>msg. e = ValueError msg")
        case True
        then obtain msg where "e = ValueError msg" by blast
        with Inl Some show ?thesis by (simp add: gqp_value_error update_conv')
      next
        case False
        with Inl Some show ?thesis by (simp add: gqp_other_error update_conv')
      qed
      have bool: "grade_function a \<noteq> Inr (VBool b, fb)" for b fb
        using Inl try_grade_Inr [of grade_function a "VBool b" fb]
        by (cases b) (auto simp: in_unit_interval_def)
      have out: "snd ?res = Raised AssertionError"
        if "grade_function a = Inr (v, fb)" "isinstance_int_float v" "\<not> in_unit_interval v"
        for v fb
      proof -
        have "try_grade grade_function a = Inl AssertionError"
          using that by (simp add: try_grade_Inr)
        then show ?thesis
          using Some by (simp add: gqp_other_error)
      qed
      show ?thesis
        using state zero Some bool out by auto
    qed
  qed
qed

text \<open>
  Claim C7. The claim has a Boolean result stored as the float 1.0 or 0.0, which is what
  the branch \<open>elif isinstance(result, bool)\<close> of the source computes. That branch is
  never reached: \<open>bool\<close> is a subclass of \<open>int\<close>, so the test
  \<open>isinstance(result, (int, float))\<close> before it accepts the Boolean, and the score
  recorded is the Boolean itself. For the grade function that returns \<open>(True, None)\<close>
  the function returns normally with the score \<open>True\<close>, not with \<open>1.0\<close>.
\<close>

theorem grade_question_parameterized_bool_score:
  "grade_question_parameterized (\<lambda>s. s)
     \<lparr>partial_scores = [], submitted_answers = [''q'' \<mapsto> ATokens [''Play'']],
      format_errors = Map.empty, feedback = Map.empty, score = None\<rparr>
     ''q'' (\<lambda>a. Inr (VBool True, None)) 1 None
   = (\<lparr>partial_scores =
         [(''q'', \<lparr>part_score = VBool True, part_weight = Some 1, part_feedback = None\<rparr>)],
       submitted_answers = [''q'' \<mapsto> ATokens [''Play'']],
       format_errors = Map.empty, feedback = Map.empty, score = None\<rparr>,
      Returned)
   \<and> VBool True \<noteq> VFloat 1"
  by (simp add: grade_question_parameterized_def get_submitted_answer_def try_grade_def
      in_unit_interval_def Let_def)

section \<open>Properties of grade\_statement\<close>

lemma if_return_simps:
  "if_return (Inl e) r rest = Inl e"
  "if_return (Inr True) r rest = Inr r"
  "if_return (Inr False) r rest = rest"
  by (simp_all add: if_return_def)

lemma py_and_simps:
  "py_and (Inl e) b = Inl e"
  "py_and (Inr True) b = b"
  "py_and (Inr False) b = Inr False"
  by (simp_all add: py_and_def)

lemma condition_holds_Cons:
  "condition_holds s ((n, v) # qs) = py_and (does_path_exist s n v) (condition_holds s qs)"
  by (simp add: py_and_def split: sum.splits bool.splits)

lemma evaluate_Cons:
  "evaluate s ((c, r) # rules) = if_return (condition_holds s c) r (evaluate s rules)"
  by (simp add: if_return_def split: sum.splits bool.splits)

lemma py_and_Inr_True [simp]: "py_and a (Inr True) = a"
  by (simp add: py_and_def split: sum.splits bool.splits)

lemma grade_statement_evaluate:
  "grade_statement StudentSubmission tokens =
     (case StudentSubmission tokens of
        Inl e \<Rightarrow> Inl e
      | Inr s \<Rightarrow> evaluate s play_music_rules)"
  unfolding grade_statement_def play_music_rules_def evaluate_Cons condition_holds_Cons
  by (simp del: evaluate.simps condition_holds.simps add: evaluate.simps(1) condition_holds.simps(1) split: sum.splits)

lemma evaluate_first_match:
  "i < length rules \<Longrightarrow> condition_holds s (fst (rules ! i)) = Inr True \<Longrightarrow>
   (\<forall>j<i. condition_holds s (fst (rules ! j)) = Inr False) \<Longrightarrow>
   evaluate s rules = Inr (snd (rules ! i))"
proof (induction rules arbitrary: i)
  case Nil
  then show ?case by simp
next
  case (Cons rule rules)
  obtain c r where rule: "rule = (c, r)" by (cases rule)
  show ?case
  proof (cases i)
    case 0
    with Cons.prems rule show ?thesis by simp
  next
    case (Suc k)
    have first: "condition_holds s c = Inr False"
      using Cons.prems(3) Suc rule by auto
    have "evaluate s rules = Inr (snd (rules ! k))"
    proof (rule Cons.IH)
      show "k < length rules" using Cons.prems(1) Suc by simp
      show "condition_holds s (fst (rules ! k)) = Inr True"
        using Cons.prems(2) Suc by simp
      show "\<forall>j<k. condition_holds s (fst (rules ! j)) = Inr False"
        using Cons.prems(3) Suc by auto
    qed
    with first rule Suc show ?thesis by simp
  qed
qed

text \<open>
  Claim C1. The rules of \<open>grade_statement\<close> are tried in their written order and the
  first rule whose condition holds gives the verdict and the feedback: if the condition of
  rule \<open>i\<close> evaluates to true and the conditions of all rules before it evaluate to
  false, the result is that of rule \<open>i\<close>. Nothing is assumed about the rules after
  \<open>i\<close>: their conditions may hold, fail or raise without any effect on the result.
\<close>

theorem grade_statement_first_rule:
  assumes "StudentSubmission tokens = Inr s"
    and "i < length play_music_rules"
    and "condition_holds s (fst (play_music_rules ! i)) = Inr True"
    and "\<forall>j<i. condition_holds s (fst (play_music_rules ! j)) = Inr False"
  shows "grade_statement StudentSubmission tokens = Inr (snd (play_music_rules ! i))"
  using evaluate_first_match [OF assms(2,3,4)] assms(1)
  by (simp add: grade_statement_evaluate)


theorem grade_statement_first_rule_witness:
  "condition_holds
     \<lparr>does_path_exist = (\<lambda>n v. if n = ''ARTIST'' then Inr (v = ''Taylor Swift'')
                                else Inl (OtherException ''later rule''))\<rparr>
     (fst (play_music_rules ! 0)) = Inr False
   \<and> condition_holds
     \<lparr>does_path_exist = (\<lambda>n v. if n = ''ARTIST'' then Inr (v = ''Taylor Swift'')
                                else Inl (OtherException ''later rule''))\<rparr>
     (fst (play_music_rules ! 1)) = Inr True
   \<and> grade_statement
     (\<lambda>tokens. Inr \<lparr>does_path_exist = (\<lambda>n v. if n = ''ARTIST'' then Inr (v = ''Taylor Swift'')
                                else Inl (OtherException ''later rule''))\<rparr>)
     [''Play'', ''Taylor Swift'', ''at home'', ''with a violin'']
     = Inr (False, Some ''It's best to sing Taylor Swift songs rather than play them. Try again.'')"
proof -
  define s where "s = \<lparr>does_path_exist = (\<lambda>n v. if n = ''ARTIST'' then Inr (v = ''Taylor Swift'')
                                else Inl (OtherException ''later rule''))\<rparr>"
  have r0: "condition_holds s (fst (play_music_rules ! 0)) = Inr False"
    by (simp add: play_music_rules_def s_def)
  have r1: "condition_holds s (fst (play_music_rules ! 1)) = Inr True"
    by (simp add: play_music_rules_def s_def)
  have len: "1 < length play_music_rules"
    by (simp add: play_music_rules_def)
  have before: "\<forall>j<1. condition_holds s (fst (play_music_rules ! j)) = Inr False"
    using r0 by simp
  have "grade_statement (\<lambda>tokens. Inr s) [''Play'', ''Taylor Swift'', ''at home'', ''with a violin'']
          = Inr (snd (play_music_rules ! 1))"
    using grade_statement_first_rule [of "\<lambda>tokens. Inr s" _ s 1] len r1 before by simp
  then show ?thesis
    using r0 r1 by (simp add: play_music_rules_def s_def)
qed

text \<open>
  Claim C2. A submission that answers true to the path queries (ARTIST, Vulfpeck) and
  (PLAY\_LOCATION, in church) is rejected with the feedback of the first rule.
\<close>

theorem grade_statement_vulfpeck_in_church:
  assumes "StudentSubmission tokens = Inr s"
    and "does_path_exist s ''ARTIST'' ''Vulfpeck'' = Inr True"
    and "does_path_exist s ''PLAY_LOCATION'' ''in church'' = Inr True"
  shows "grade_statement StudentSubmission tokens =
           Inr (False, Some ''Vulfpeck is great, but not in the context of church. consider playing somewhere else.'')"
  using assms by (simp add: grade_statement_def py_and_simps if_return_simps)

theorem grade_statement_vulfpeck_in_church_witness:
  "grade_statement
     (\<lambda>tokens. Inr (record_submission
        [''ARTIST'' \<mapsto> ''Vulfpeck'', ''PLAY_LOCATION'' \<mapsto> ''in church'',
         ''INSTRUMENT'' \<mapsto> ''with a guitar'']))
     [''Play'', ''Vulfpeck'', ''in church'', ''with a guitar'']
   = Inr (False, Some ''Vulfpeck is great, but not in the context of church. consider playing somewhere else.'')"
  using grade_statement_vulfpeck_in_church
    [of "\<lambda>tokens. Inr (record_submission
        [''ARTIST'' \<mapsto> ''Vulfpeck'', ''PLAY_LOCATION'' \<mapsto> ''in church'',
         ''INSTRUMENT'' \<mapsto> ''with a guitar''])"
        "[''Play'', ''Vulfpeck'', ''in church'', ''with a guitar'']"]
  by (simp add: record_submission_def took_alternative_def)

text \<open>
  Claim C3. A submission whose derivation record gives Taylor Swift as the alternative of
  ARTIST is rejected with the feedback of the second rule, whatever the record says about
  PLAY\_LOCATION and INSTRUMENT: the record maps ARTIST to one alternative only, so the
  first rule, which asks for Vulfpeck, cannot apply.
\<close>

theorem grade_statement_taylor_swift:
  assumes "StudentSubmission tokens = Inr (record_submission r)"
    and "took_alternative r ''ARTIST'' ''Taylor Swift''"
  shows "grade_statement StudentSubmission tokens =
           Inr (False, Some ''It's best to sing Taylor Swift songs rather than play them. Try again.'')"
  using assms
  by (simp add: grade_statement_def record_submission_def took_alternative_def
      py_and_simps if_return_simps)

theorem grade_statement_taylor_swift_witness:
  "took_alternative [''ARTIST'' \<mapsto> ''Taylor Swift'', ''PLAY_LOCATION'' \<mapsto> ''in church'',
         ''INSTRUMENT'' \<mapsto> ''with a violin''] ''ARTIST'' ''Taylor Swift''
   \<and> grade_statement
     (\<lambda>tokens. Inr (record_submission
        [''ARTIST'' \<mapsto> ''Taylor Swift'', ''PLAY_LOCATION'' \<mapsto> ''in church'',
         ''INSTRUMENT'' \<mapsto> ''with a violin'']))
     [''Play'', ''Taylor Swift'', ''in church'', ''with a violin'']
   = Inr (False, Some ''It's best to sing Taylor Swift songs rather than play them. Try again.'')"
  using grade_statement_taylor_swift
    [of "\<lambda>tokens. Inr (record_submission
        [''ARTIST'' \<mapsto> ''Taylor Swift'', ''PLAY_LOCATION'' \<mapsto> ''in church'',
         ''INSTRUMENT'' \<mapsto> ''with a violin''])"
        "[''Play'', ''Taylor Swift'', ''in church'', ''with a violin'']"
        "[''ARTIST'' \<mapsto> ''Taylor Swift'', ''PLAY_LOCATION'' \<mapsto> ''in church'',
         ''INSTRUMENT'' \<mapsto> ''with a violin'']"]
  by (simp add: took_alternative_def)

text \<open>
  Claim C4. A submission for which ARTIST matched Vulfpeck and nothing else,
  PLAY\_LOCATION matched at the quad and nothing else, and INSTRUMENT matched with a guitar
  and nothing else is accepted with the feedback of the last rule.
\<close>

theorem grade_statement_ultimate_combo:
  assumes "StudentSubmission tokens = Inr s"
    and "\<forall>v. does_path_exist s ''ARTIST'' v = Inr (v = ''Vulfpeck'')"
    and "\<forall>v. does_path_exist s ''PLAY_LOCATION'' v = Inr (v = ''at the quad'')"
    and "\<forall>v. does_path_exist s ''INSTRUMENT'' v = Inr (v = ''with a guitar'')"
  shows "grade_statement StudentSubmission tokens = Inr (True, Some ''Yep. That's the ultimate combo.'')"
  using assms by (simp add: grade_statement_def py_and_simps if_return_simps)

theorem grade_statement_ultimate_combo_witness:
  "(\<forall>v. does_path_exist (record_submission
        [''ARTIST'' \<mapsto> ''Vulfpeck'', ''PLAY_LOCATION'' \<mapsto> ''at the quad'',
         ''INSTRUMENT'' \<mapsto> ''with a guitar'']) ''ARTIST'' v = Inr (v = ''Vulfpeck''))
   \<and> grade_statement
     (\<lambda>tokens. Inr (record_submission
        [''ARTIST'' \<mapsto> ''Vulfpeck'', ''PLAY_LOCATION'' \<mapsto> ''at the quad'',
         ''INSTRUMENT'' \<mapsto> ''with a guitar'']))
     [''Play'', ''Vulfpeck'', ''at the quad'', ''with a guitar'']
   = Inr (True, Some ''Yep. That's the ultimate combo.'')"
proof -
  define s where "s = record_submission
        [''ARTIST'' \<mapsto> ''Vulfpeck'', ''PLAY_LOCATION'' \<mapsto> ''at the quad'',
         ''INSTRUMENT'' \<mapsto> ''with a guitar'']"
  have a: "\<forall>v. does_path_exist s ''ARTIST'' v = Inr (v = ''Vulfpeck'')"
    by (auto simp: s_def record_submission_def took_alternative_def)
  have l: "\<forall>v. does_path_exist s ''PLAY_LOCATION'' v = Inr (v = ''at the quad'')"
    by (auto simp: s_def record_submission_def took_alternative_def)
  have i: "\<forall>v. does_path_exist s ''INSTRUMENT'' v = Inr (v = ''with a guitar'')"
    by (auto simp: s_def record_submission_def took_alternative_def)
  have c: "(\<lambda>tokens. Inr s) [''Play'', ''Vulfpeck'', ''at the quad'', ''with a guitar''] = Inr s"
    by simp
  show ?thesis
    using a grade_statement_ultimate_combo [OF c a l i] by (simp add: s_def)
qed

text \<open>
  Claim C5. A submission that answers false to every path query on ARTIST,
  PLAY\_LOCATION and INSTRUMENT, as the one that takes the epsilon branch does, is accepted
  without feedback.
\<close>

theorem grade_statement_epsilon:
  assumes "StudentSubmission tokens = Inr s"
    and "\<forall>v. does_path_exist s ''ARTIST'' v = Inr False"
    and "\<forall>v. does_path_exist s ''PLAY_LOCATION'' v = Inr False"
    and "\<forall>v. does_path_exist s ''INSTRUMENT'' v = Inr False"
  shows "grade_statement StudentSubmission tokens = Inr (True, None)"
  using assms by (simp add: grade_statement_def py_and_simps if_return_simps)

theorem grade_statement_epsilon_witness:
  "(\<forall>v. does_path_exist (record_submission Map.empty) ''ARTIST'' v = Inr False)
   \<and> (\<forall>v. does_path_exist (record_submission Map.empty) ''PLAY_LOCATION'' v = Inr False)
   \<and> (\<forall>v. does_path_exist (record_submission Map.empty) ''INSTRUMENT'' v = Inr False)
   \<and> grade_statement (\<lambda>tokens. Inr (record_submission Map.empty)) [''Play''] = Inr (True, None)"
proof -
  have q: "\<forall>v. does_path_exist (record_submission Map.empty) n v = Inr False" for n
    by (simp add: record_submission_def took_alternative_def)
  have c: "(\<lambda>tokens. Inr (record_submission Map.empty)) [''Play''] = Inr (record_submission Map.empty)"
    by simp
  show ?thesis
    using q grade_statement_epsilon [OF c q q q] by simp
qed

end
